theory Spec2Isabelle
  imports Main
begin

section \<open>The declaration surface of DDCSupport.h\<close>

text \<open>
  \<^verbatim>\<open>Sources/DDCSupport/include/DDCSupport.h\<close> has no function body: it is a list of
  preprocessor lines, one \<^verbatim>\<open>typedef\<close> and thirteen function declarations. The
  embedding is therefore the header itself, as a value: each line of the file is one
  \<open>item\<close>, in the order of the file, and the properties of the interface are
  computed from that value.
\<close>

subsection \<open>C types as the header writes them\<close>

text \<open>
  \<open>TUInt32\<close> is \<^verbatim>\<open>uint32_t\<close>, the exact-width unsigned 32-bit integer of
  \<^verbatim>\<open>stdint.h\<close>. A name the header takes from the platform's frameworks
  (\<^verbatim>\<open>CFTypeRef\<close>, \<^verbatim>\<open>IOReturn\<close>, \<^verbatim>\<open>CGDirectDisplayID\<close>, ...) stays a name:
  \<open>TNamed\<close>. \<open>TConst\<close> is the \<^verbatim>\<open>const\<close> qualifier; the header never writes it.
\<close>

datatype ctype =
    TVoid
  | TBool
  | TInt
  | TFloat
  | TUInt32
  | TNamed string
  | TPtr ctype
  | TConst ctype

text \<open>A parameter: its name, when the declaration gives one, and its type.\<close>

record param =
  pname :: "string option"
  ptype :: ctype

text \<open>The storage-class specifier written in front of a declaration, if any.\<close>

datatype storage_class = SExtern | SStatic | SNone

datatype attribute = WeakImport | OtherAttribute string

record fundecl =
  fname :: string
  storage :: storage_class
  ret :: ctype
  params :: "param list"
  attrs :: "attribute list"
  has_body :: bool

text \<open>
  What a line at the top level of a C header can be: a preprocessor line, a
  \<^verbatim>\<open>typedef\<close> (the aliased type, then the new name, as C writes it), a function
  declaration or definition, or the declaration of an object (a variable).
\<close>

datatype item =
    PragmaOnce
  | Include string
  | TypedefDecl ctype string
  | FunDecl fundecl
  | ObjDecl ctype string

subsection \<open>The header, line by line\<close>

definition IOAVServiceCreate :: fundecl where
  "IOAVServiceCreate =
     \<lparr>fname = ''IOAVServiceCreate'', storage = SExtern, ret = TNamed ''IOAVService'',
      params = [\<lparr>pname = Some ''allocator'', ptype = TNamed ''CFAllocatorRef''\<rparr>],
      attrs = [], has_body = False\<rparr>"

definition IOAVServiceCreateWithService :: fundecl where
  "IOAVServiceCreateWithService =
     \<lparr>fname = ''IOAVServiceCreateWithService'', storage = SExtern,
      ret = TNamed ''IOAVService'',
      params = [\<lparr>pname = Some ''allocator'', ptype = TNamed ''CFAllocatorRef''\<rparr>,
                \<lparr>pname = Some ''service'', ptype = TNamed ''io_service_t''\<rparr>],
      attrs = [], has_body = False\<rparr>"

definition IOAVServiceReadI2C :: fundecl where
  "IOAVServiceReadI2C =
     \<lparr>fname = ''IOAVServiceReadI2C'', storage = SExtern, ret = TNamed ''IOReturn'',
      params = [\<lparr>pname = Some ''service'', ptype = TNamed ''IOAVService''\<rparr>,
                \<lparr>pname = Some ''chipAddress'', ptype = TUInt32\<rparr>,
                \<lparr>pname = Some ''offset'', ptype = TUInt32\<rparr>,
                \<lparr>pname = Some ''outputBuffer'', ptype = TPtr TVoid\<rparr>,
                \<lparr>pname = Some ''outputBufferSize'', ptype = TUInt32\<rparr>],
      attrs = [], has_body = False\<rparr>"

definition IOAVServiceWriteI2C :: fundecl where
  "IOAVServiceWriteI2C =
     \<lparr>fname = ''IOAVServiceWriteI2C'', storage = SExtern, ret = TNamed ''IOReturn'',
      params = [\<lparr>pname = Some ''service'', ptype = TNamed ''IOAVService''\<rparr>,
                \<lparr>pname = Some ''chipAddress'', ptype = TUInt32\<rparr>,
                \<lparr>pname = Some ''dataAddress'', ptype = TUInt32\<rparr>,
                \<lparr>pname = Some ''inputBuffer'', ptype = TPtr TVoid\<rparr>,
                \<lparr>pname = Some ''inputBufferSize'', ptype = TUInt32\<rparr>],
      attrs = [], has_body = False\<rparr>"

definition CoreDisplay_DisplayCreateInfoDictionary :: fundecl where
  "CoreDisplay_DisplayCreateInfoDictionary =
     \<lparr>fname = ''CoreDisplay_DisplayCreateInfoDictionary'', storage = SExtern,
      ret = TNamed ''CFDictionaryRef'',
      params = [\<lparr>pname = None, ptype = TNamed ''CGDirectDisplayID''\<rparr>],
      attrs = [], has_body = False\<rparr>"

definition CGDisplayCreateUUIDFromDisplayID :: fundecl where
  "CGDisplayCreateUUIDFromDisplayID =
     \<lparr>fname = ''CGDisplayCreateUUIDFromDisplayID'', storage = SExtern,
      ret = TNamed ''CFUUIDRef'',
      params = [\<lparr>pname = Some ''display'', ptype = TNamed ''CGDirectDisplayID''\<rparr>],
      attrs = [], has_body = False\<rparr>"

definition DisplayServicesGetBrightness :: fundecl where
  "DisplayServicesGetBrightness =
     \<lparr>fname = ''DisplayServicesGetBrightness'', storage = SExtern, ret = TInt,
      params = [\<lparr>pname = Some ''display'', ptype = TNamed ''CGDirectDisplayID''\<rparr>,
                \<lparr>pname = Some ''brightness'', ptype = TPtr TFloat\<rparr>],
      attrs = [], has_body = False\<rparr>"

definition DisplayServicesSetBrightness :: fundecl where
  "DisplayServicesSetBrightness =
     \<lparr>fname = ''DisplayServicesSetBrightness'', storage = SExtern, ret = TInt,
      params = [\<lparr>pname = Some ''display'', ptype = TNamed ''CGDirectDisplayID''\<rparr>,
                \<lparr>pname = Some ''brightness'', ptype = TFloat\<rparr>],
      attrs = [], has_body = False\<rparr>"

definition DisplayServicesGetLinearBrightness :: fundecl where
  "DisplayServicesGetLinearBrightness =
     \<lparr>fname = ''DisplayServicesGetLinearBrightness'', storage = SExtern, ret = TInt,
      params = [\<lparr>pname = Some ''display'', ptype = TNamed ''CGDirectDisplayID''\<rparr>,
                \<lparr>pname = Some ''brightness'', ptype = TPtr TFloat\<rparr>],
      attrs = [], has_body = False\<rparr>"

definition DisplayServicesSetLinearBrightness :: fundecl where
  "DisplayServicesSetLinearBrightness =
     \<lparr>fname = ''DisplayServicesSetLinearBrightness'', storage = SExtern, ret = TInt,
      params = [\<lparr>pname = Some ''display'', ptype = TNamed ''CGDirectDisplayID''\<rparr>,
                \<lparr>pname = Some ''brightness'', ptype = TFloat\<rparr>],
      attrs = [], has_body = False\<rparr>"

definition CGSServiceForDisplayNumber :: fundecl where
  "CGSServiceForDisplayNumber =
     \<lparr>fname = ''CGSServiceForDisplayNumber'', storage = SExtern, ret = TVoid,
      params = [\<lparr>pname = Some ''display'', ptype = TNamed ''CGDirectDisplayID''\<rparr>,
                \<lparr>pname = Some ''service'', ptype = TPtr (TNamed ''io_service_t'')\<rparr>],
      attrs = [], has_body = False\<rparr>"

text \<open>The two HDR queries are written without \<^verbatim>\<open>extern\<close> and with the attribute.\<close>

definition CGSIsHDREnabled :: fundecl where
  "CGSIsHDREnabled =
     \<lparr>fname = ''CGSIsHDREnabled'', storage = SNone, ret = TBool,
      params = [\<lparr>pname = Some ''display'', ptype = TNamed ''CGDirectDisplayID''\<rparr>],
      attrs = [WeakImport], has_body = False\<rparr>"

definition CGSIsHDRSupported :: fundecl where
  "CGSIsHDRSupported =
     \<lparr>fname = ''CGSIsHDRSupported'', storage = SNone, ret = TBool,
      params = [\<lparr>pname = Some ''display'', ptype = TNamed ''CGDirectDisplayID''\<rparr>],
      attrs = [WeakImport], has_body = False\<rparr>"

definition DDCSupport_h :: "item list" where
  "DDCSupport_h =
     [PragmaOnce,
      Include ''Foundation/Foundation.h'',
      Include ''IOKit/i2c/IOI2CInterface.h'',
      Include ''CoreGraphics/CoreGraphics.h'',
      TypedefDecl (TNamed ''CFTypeRef'') ''IOAVService'',
      FunDecl IOAVServiceCreate,
      FunDecl IOAVServiceCreateWithService,
      FunDecl IOAVServiceReadI2C,
      FunDecl IOAVServiceWriteI2C,
      FunDecl CoreDisplay_DisplayCreateInfoDictionary,
      FunDecl CGDisplayCreateUUIDFromDisplayID,
      FunDecl DisplayServicesGetBrightness,
      FunDecl DisplayServicesSetBrightness,
      FunDecl DisplayServicesGetLinearBrightness,
      FunDecl DisplayServicesSetLinearBrightness,
      FunDecl CGSServiceForDisplayNumber,
      FunDecl CGSIsHDREnabled,
      FunDecl CGSIsHDRSupported]"

subsection \<open>Reading a header\<close>

fun declared_functions :: "item list \<Rightarrow> fundecl list" where
  "declared_functions [] = []"
| "declared_functions (FunDecl f # rest) = f # declared_functions rest"
| "declared_functions (_ # rest) = declared_functions rest"

fun declared_typedefs :: "item list \<Rightarrow> (string \<times> ctype) list" where
  "declared_typedefs [] = []"
| "declared_typedefs (TypedefDecl t n # rest) = (n, t) # declared_typedefs rest"
| "declared_typedefs (_ # rest) = declared_typedefs rest"

fun declared_objects :: "item list \<Rightarrow> (string \<times> ctype) list" where
  "declared_objects [] = []"
| "declared_objects (ObjDecl t n # rest) = (n, t) # declared_objects rest"
| "declared_objects (_ # rest) = declared_objects rest"

fun is_directive :: "item \<Rightarrow> bool" where
  "is_directive PragmaOnce = True"
| "is_directive (Include _) = True"
| "is_directive _ = False"

definition declarations :: "item list \<Rightarrow> item list" where
  "declarations h = filter (\<lambda>i. \<not> is_directive i) h"

definition lookup :: "item list \<Rightarrow> string \<Rightarrow> fundecl option" where
  "lookup h n = find (\<lambda>f. fname f = n) (declared_functions h)"

definition signature :: "fundecl \<Rightarrow> ctype \<times> ctype list" where
  "signature f = (ret f, map ptype (params f))"

definition weak_imported :: "fundecl \<Rightarrow> bool" where
  "weak_imported f = (WeakImport \<in> set (attrs f))"

text \<open>
  A function declared with \<^verbatim>\<open>extern\<close>, or with no storage-class specifier, has
  external linkage (C11 6.2.2): only \<^verbatim>\<open>static\<close> makes it internal.
\<close>

definition external_linkage :: "fundecl \<Rightarrow> bool" where
  "external_linkage f = (storage f \<noteq> SStatic)"

subsection \<open>What a call can hand back\<close>

text \<open>
  A callee can write through a parameter that is a pointer to a type that is not
  \<^verbatim>\<open>const\<close>; such a parameter can carry a result out of the call.
\<close>

fun writable_pointer :: "ctype \<Rightarrow> bool" where
  "writable_pointer (TPtr (TConst _)) = False"
| "writable_pointer (TPtr _) = True"
| "writable_pointer _ = False"

definition out_params :: "fundecl \<Rightarrow> param list" where
  "out_params f = filter (\<lambda>p. writable_pointer (ptype p)) (params f)"

text \<open>
  The two return types the header uses for a status: the platform's
  \<^verbatim>\<open>IOReturn\<close> and a plain \<^verbatim>\<open>int\<close>.
\<close>

definition status_code_type :: "ctype \<Rightarrow> bool" where
  "status_code_type t = (t = TNamed ''IOReturn'' \<or> t = TInt)"

subsection \<open>Typedef names\<close>

text \<open>
  A \<^verbatim>\<open>typedef\<close> introduces a synonym, not a new type: two types are the same when
  they agree once every typedef name of the header is replaced by what it stands for.
  A typedef can only mention names declared before it, so the names are replaced from
  the last typedef of the header back to the first.
\<close>

primrec subst_name :: "string \<Rightarrow> ctype \<Rightarrow> ctype \<Rightarrow> ctype" where
  "subst_name n t TVoid = TVoid"
| "subst_name n t TBool = TBool"
| "subst_name n t TInt = TInt"
| "subst_name n t TFloat = TFloat"
| "subst_name n t TUInt32 = TUInt32"
| "subst_name n t (TNamed x) = (if x = n then t else TNamed x)"
| "subst_name n t (TPtr u) = TPtr (subst_name n t u)"
| "subst_name n t (TConst u) = TConst (subst_name n t u)"

definition resolve :: "item list \<Rightarrow> ctype \<Rightarrow> ctype" where
  "resolve h ty = fold (\<lambda>(n, t). subst_name n t) (rev (declared_typedefs h)) ty"

definition same_type :: "item list \<Rightarrow> ctype \<Rightarrow> ctype \<Rightarrow> bool" where
  "same_type h a b = (resolve h a = resolve h b)"

subsection \<open>Weak import\<close>

text \<open>
  \<^verbatim>\<open>__attribute__((weak_import))\<close> changes what happens when the platform does not
  export the symbol: the program still loads and the function's address is null. Without
  the attribute a missing symbol is a failure to load. \<open>bind_symbol f impl\<close> is the
  loader's result for the declaration \<open>f\<close> when the platform's export is \<open>impl\<close>
  (\<open>None\<close>: not exported); the result \<open>None\<close> is the failure to load.
\<close>

datatype 'i symbol = Null | Resolved 'i

definition bind_symbol :: "fundecl \<Rightarrow> 'i option \<Rightarrow> 'i symbol option" where
  "bind_symbol f impl =
     (case impl of
        Some i \<Rightarrow> Some (Resolved i)
      | None \<Rightarrow> if weak_imported f then Some Null else None)"

text \<open>
  What a caller that tests the address before calling can observe of one call: that the
  symbol is absent, or the returned value.
\<close>

datatype 'r observation = Absent | Returned 'r

fun guarded_call :: "('a \<Rightarrow> 'r) symbol \<Rightarrow> 'a \<Rightarrow> 'r observation" where
  "guarded_call Null x = Absent"
| "guarded_call (Resolved f) x = Returned (f x)"

text \<open>
  One call of a declared function, from loading to the caller's observation: \<open>None\<close>
  when the program does not load.
\<close>

definition call_declared ::
  "fundecl \<Rightarrow> ('a \<Rightarrow> 'r) option \<Rightarrow> 'a \<Rightarrow> 'r observation option" where
  "call_declared f impl x = map_option (\<lambda>s. guarded_call s x) (bind_symbol f impl)"

subsection \<open>Groups of declarations\<close>

text \<open>The functions with a parameter called \<^verbatim>\<open>brightness\<close>.\<close>

definition brightness_functions :: "item list \<Rightarrow> fundecl list" where
  "brightness_functions h =
     filter (\<lambda>f. Some ''brightness'' \<in> set (map pname (params f))) (declared_functions h)"

text \<open>The functions with a parameter of type \<^verbatim>\<open>void*\<close>.\<close>

definition untyped_buffer_functions :: "item list \<Rightarrow> fundecl list" where
  "untyped_buffer_functions h =
     filter (\<lambda>f. TPtr TVoid \<in> set (map ptype (params f))) (declared_functions h)"

section \<open>Properties of the interface\<close>

lemmas decl_defs =
  IOAVServiceCreate_def IOAVServiceCreateWithService_def IOAVServiceReadI2C_def
  IOAVServiceWriteI2C_def CoreDisplay_DisplayCreateInfoDictionary_def
  CGDisplayCreateUUIDFromDisplayID_def DisplayServicesGetBrightness_def
  DisplayServicesSetBrightness_def DisplayServicesGetLinearBrightness_def
  DisplayServicesSetLinearBrightness_def CGSServiceForDisplayNumber_def
  CGSIsHDREnabled_def CGSIsHDRSupported_def

lemmas iface_defs = signature_def weak_imported_def external_linkage_def out_params_def
  status_code_type_def lookup_def

lemma functions_DDCSupport_h:
  "declared_functions DDCSupport_h =
     [IOAVServiceCreate, IOAVServiceCreateWithService, IOAVServiceReadI2C,
      IOAVServiceWriteI2C, CoreDisplay_DisplayCreateInfoDictionary,
      CGDisplayCreateUUIDFromDisplayID, DisplayServicesGetBrightness,
      DisplayServicesSetBrightness, DisplayServicesGetLinearBrightness,
      DisplayServicesSetLinearBrightness, CGSServiceForDisplayNumber,
      CGSIsHDREnabled, CGSIsHDRSupported]"
  by (simp add: DDCSupport_h_def)

text \<open>
  Claim C1. Exactly two of the declared functions carry \<^verbatim>\<open>weak_import\<close>:
  \<^verbatim>\<open>CGSIsHDREnabled\<close> and \<^verbatim>\<open>CGSIsHDRSupported\<close>. Each takes one display identifier
  and returns \<^verbatim>\<open>bool\<close>. The other eleven functions are not weak-imported. When the
  platform does not export the symbol, the two load with a null address, which the caller
  has to test for, and any of the other eleven fails to load.
\<close>

theorem weak_import_exactly_hdr_queries:
  "map fname (filter weak_imported (declared_functions DDCSupport_h)) =
     [''CGSIsHDREnabled'', ''CGSIsHDRSupported'']
   \<and> map signature (filter weak_imported (declared_functions DDCSupport_h)) =
     [(TBool, [TNamed ''CGDirectDisplayID'']), (TBool, [TNamed ''CGDirectDisplayID''])]
   \<and> map fname (filter (\<lambda>f. \<not> weak_imported f) (declared_functions DDCSupport_h)) =
     [''IOAVServiceCreate'', ''IOAVServiceCreateWithService'', ''IOAVServiceReadI2C'',
      ''IOAVServiceWriteI2C'', ''CoreDisplay_DisplayCreateInfoDictionary'',
      ''CGDisplayCreateUUIDFromDisplayID'', ''DisplayServicesGetBrightness'',
      ''DisplayServicesSetBrightness'', ''DisplayServicesGetLinearBrightness'',
      ''DisplayServicesSetLinearBrightness'', ''CGSServiceForDisplayNumber'']
   \<and> map (\<lambda>f. bind_symbol f None) (filter weak_imported (declared_functions DDCSupport_h)) =
     [Some Null, Some Null]
   \<and> map (\<lambda>f. bind_symbol f None)
         (filter (\<lambda>f. \<not> weak_imported f) (declared_functions DDCSupport_h)) =
     replicate 11 None"
  by (simp add: functions_DDCSupport_h decl_defs iface_defs bind_symbol_def
      numeral_eq_Suc)

text \<open>
  Claim C2. Apart from its four preprocessor lines (\<^verbatim>\<open>#pragma once\<close> and three
  \<^verbatim>\<open>#include\<close>s), the header is one type alias, \<^verbatim>\<open>IOAVService\<close>, followed by
  thirteen function declarations: by return type two service-handle creators, two I2C
  transfers, one display-information function, one UUID function, four brightness
  functions, one service resolution and two HDR queries. No function has a body, every
  function has external linkage, and no object is declared.
\<close>

theorem header_is_fourteen_declarations:
  "declarations DDCSupport_h =
     TypedefDecl (TNamed ''CFTypeRef'') ''IOAVService''
       # map FunDecl (declared_functions DDCSupport_h)
   \<and> filter is_directive DDCSupport_h =
     [PragmaOnce, Include ''Foundation/Foundation.h'',
      Include ''IOKit/i2c/IOI2CInterface.h'', Include ''CoreGraphics/CoreGraphics.h'']
   \<and> length (declared_functions DDCSupport_h) = 13
   \<and> map fname (declared_functions DDCSupport_h) =
     [''IOAVServiceCreate'', ''IOAVServiceCreateWithService'',
      ''IOAVServiceReadI2C'', ''IOAVServiceWriteI2C'',
      ''CoreDisplay_DisplayCreateInfoDictionary'',
      ''CGDisplayCreateUUIDFromDisplayID'',
      ''DisplayServicesGetBrightness'', ''DisplayServicesSetBrightness'',
      ''DisplayServicesGetLinearBrightness'', ''DisplayServicesSetLinearBrightness'',
      ''CGSServiceForDisplayNumber'',
      ''CGSIsHDREnabled'', ''CGSIsHDRSupported'']
   \<and> map ret (declared_functions DDCSupport_h) =
     [TNamed ''IOAVService'', TNamed ''IOAVService'',
      TNamed ''IOReturn'', TNamed ''IOReturn'',
      TNamed ''CFDictionaryRef'',
      TNamed ''CFUUIDRef'',
      TInt, TInt, TInt, TInt,
      TVoid,
      TBool, TBool]
   \<and> declared_typedefs DDCSupport_h = [(''IOAVService'', TNamed ''CFTypeRef'')]
   \<and> declared_objects DDCSupport_h = []
   \<and> filter has_body (declared_functions DDCSupport_h) = []
   \<and> filter (\<lambda>f. \<not> external_linkage f) (declared_functions DDCSupport_h) = []"
  by (simp add: functions_DDCSupport_h declarations_def)
     (simp add: DDCSupport_h_def decl_defs iface_defs)

text \<open>
  Claim C4. Exactly four brightness functions are declared: get and set, each for the
  perceptual and for the linear brightness. Every one takes a display identifier and a
  brightness, a \<^verbatim>\<open>float*\<close> for the getters and a \<^verbatim>\<open>float\<close> for the setters, and
  returns \<^verbatim>\<open>int\<close>, a status code. They are the functions of the header that return
  \<^verbatim>\<open>int\<close>.
\<close>

theorem brightness_function_signatures:
  "map fname (brightness_functions DDCSupport_h) =
     [''DisplayServicesGetBrightness'', ''DisplayServicesSetBrightness'',
      ''DisplayServicesGetLinearBrightness'', ''DisplayServicesSetLinearBrightness'']
   \<and> map signature (brightness_functions DDCSupport_h) =
     [(TInt, [TNamed ''CGDirectDisplayID'', TPtr TFloat]),
      (TInt, [TNamed ''CGDirectDisplayID'', TFloat]),
      (TInt, [TNamed ''CGDirectDisplayID'', TPtr TFloat]),
      (TInt, [TNamed ''CGDirectDisplayID'', TFloat])]
   \<and> map (\<lambda>f. status_code_type (ret f)) (brightness_functions DDCSupport_h) =
     [True, True, True, True]
   \<and> map fname (filter (\<lambda>f. ret f = TInt) (declared_functions DDCSupport_h)) =
     map fname (brightness_functions DDCSupport_h)"
  by (simp add: brightness_functions_def functions_DDCSupport_h decl_defs iface_defs)

text \<open>
  Claim C5. Exactly two functions return the service-handle type \<^verbatim>\<open>IOAVService\<close>:
  \<^verbatim>\<open>IOAVServiceCreate\<close>, which takes only an allocator, and
  \<^verbatim>\<open>IOAVServiceCreateWithService\<close>, which takes an allocator and a service reference.
\<close>

theorem service_handle_creators:
  "map fname (filter (\<lambda>f. ret f = TNamed ''IOAVService'') (declared_functions DDCSupport_h)) =
     [''IOAVServiceCreate'', ''IOAVServiceCreateWithService'']
   \<and> map_option signature (lookup DDCSupport_h ''IOAVServiceCreate'') =
     Some (TNamed ''IOAVService'', [TNamed ''CFAllocatorRef''])
   \<and> map_option signature (lookup DDCSupport_h ''IOAVServiceCreateWithService'') =
     Some (TNamed ''IOAVService'', [TNamed ''CFAllocatorRef'', TNamed ''io_service_t''])"
  by (simp add: functions_DDCSupport_h decl_defs iface_defs)

text \<open>
  Claim C6. \<^verbatim>\<open>CGSServiceForDisplayNumber\<close> takes a display identifier and a pointer to
  a service reference and returns \<^verbatim>\<open>void\<close>, which is no status code: the pointer is
  the only way for a result out of the call. It is the only function of the header that
  returns \<^verbatim>\<open>void\<close>.
\<close>

theorem service_for_display_number_out_param:
  "map_option signature (lookup DDCSupport_h ''CGSServiceForDisplayNumber'') =
     Some (TVoid, [TNamed ''CGDirectDisplayID'', TPtr (TNamed ''io_service_t'')])
   \<and> map_option out_params (lookup DDCSupport_h ''CGSServiceForDisplayNumber'') =
     Some [\<lparr>pname = Some ''service'', ptype = TPtr (TNamed ''io_service_t'')\<rparr>]
   \<and> \<not> status_code_type TVoid
   \<and> map fname (filter (\<lambda>f. ret f = TVoid) (declared_functions DDCSupport_h)) =
     [''CGSServiceForDisplayNumber'']"
  by (simp add: functions_DDCSupport_h decl_defs iface_defs)

text \<open>
  Claim C7. \<^verbatim>\<open>CoreDisplay_DisplayCreateInfoDictionary\<close> is declared with one argument,
  a display identifier, and the return type \<^verbatim>\<open>CFDictionaryRef\<close>;
  \<^verbatim>\<open>CGDisplayCreateUUIDFromDisplayID\<close> with one argument, a display identifier, and the
  return type \<^verbatim>\<open>CFUUIDRef\<close>.
\<close>

theorem display_info_and_uuid_signatures:
  "map_option signature (lookup DDCSupport_h ''CoreDisplay_DisplayCreateInfoDictionary'') =
     Some (TNamed ''CFDictionaryRef'', [TNamed ''CGDirectDisplayID''])
   \<and> map_option signature (lookup DDCSupport_h ''CGDisplayCreateUUIDFromDisplayID'') =
     Some (TNamed ''CFUUIDRef'', [TNamed ''CGDirectDisplayID''])"
  by (simp add: functions_DDCSupport_h decl_defs iface_defs)

lemma typedefs_DDCSupport_h:
  "declared_typedefs DDCSupport_h = [(''IOAVService'', TNamed ''CFTypeRef'')]"
  by (simp add: DDCSupport_h_def)

lemma resolve_IOAVService:
  "resolve DDCSupport_h (TNamed ''IOAVService'') = TNamed ''CFTypeRef''"
  "resolve DDCSupport_h (TNamed ''CFTypeRef'') = TNamed ''CFTypeRef''"
  by (simp_all add: resolve_def typedefs_DDCSupport_h)

lemma same_type_IOAVService:
  "same_type DDCSupport_h (TNamed ''IOAVService'') t =
   same_type DDCSupport_h (TNamed ''CFTypeRef'') t"
  by (simp only: same_type_def resolve_IOAVService)

text \<open>
  Claim C8. \<^verbatim>\<open>IOAVService\<close> is the header's only typedef and stands for
  \<^verbatim>\<open>CFTypeRef\<close>. So a type is the same as \<^verbatim>\<open>CFTypeRef\<close> exactly when it is the same
  as \<^verbatim>\<open>IOAVService\<close>: whatever is accepted where a \<^verbatim>\<open>CFTypeRef\<close> is expected is
  accepted where a service handle is expected (the \<^verbatim>\<open>service\<close> parameter of the two
  I2C transfers), and the other way round.
\<close>

theorem IOAVService_alias_of_CFTypeRef:
  "declared_typedefs DDCSupport_h = [(''IOAVService'', TNamed ''CFTypeRef'')]
   \<and> resolve DDCSupport_h (TNamed ''IOAVService'') = TNamed ''CFTypeRef''
   \<and> (\<forall>t. same_type DDCSupport_h (TNamed ''CFTypeRef'') t
          \<longrightarrow> same_type DDCSupport_h (TNamed ''IOAVService'') t)
   \<and> (\<forall>t. same_type DDCSupport_h (TNamed ''IOAVService'') t
          \<longrightarrow> same_type DDCSupport_h (TNamed ''CFTypeRef'') t)
   \<and> map (\<lambda>f. (fname f, map pname (filter (\<lambda>p. ptype p = TNamed ''IOAVService'') (params f))))
         (filter (\<lambda>f. TNamed ''IOAVService'' \<in> set (map ptype (params f)))
            (declared_functions DDCSupport_h)) =
     [(''IOAVServiceReadI2C'', [Some ''service'']),
      (''IOAVServiceWriteI2C'', [Some ''service''])]"
  by (simp add: same_type_IOAVService resolve_IOAVService typedefs_DDCSupport_h
      functions_DDCSupport_h decl_defs)

theorem IOAVService_alias_of_CFTypeRef_witness:
  "same_type DDCSupport_h (TNamed ''CFTypeRef'') (TNamed ''CFTypeRef'')
   \<and> same_type DDCSupport_h (TNamed ''IOAVService'') (TNamed ''CFTypeRef'')
   \<and> same_type DDCSupport_h (TNamed ''IOAVService'') (TNamed ''IOAVService'')
   \<and> same_type DDCSupport_h (TNamed ''CFTypeRef'') (TNamed ''IOAVService'')"
proof -
  have a: "same_type DDCSupport_h (TNamed ''CFTypeRef'') (TNamed ''CFTypeRef'')"
    by (simp add: same_type_def)
  have b: "same_type DDCSupport_h (TNamed ''IOAVService'') (TNamed ''IOAVService'')"
    by (simp add: same_type_def)
  from IOAVService_alias_of_CFTypeRef a b show ?thesis by blast
qed

lemma call_declared_weak:
  assumes "weak_imported f"
  shows "call_declared f impl d =
           (case impl of None \<Rightarrow> Some Absent | Some i \<Rightarrow> Some (Returned (i d)))"
  using assms by (simp add: call_declared_def bind_symbol_def split: option.split)

lemma weak_call_outcomes:
  fixes impl :: "('d \<Rightarrow> bool) option"
  assumes "weak_imported f"
  shows "call_declared f impl d \<in> {Some Absent, Some (Returned True), Some (Returned False)}"
  using assms by (cases impl) (simp_all add: call_declared_weak)

lemma weak_call_absent:
  assumes "weak_imported f"
  shows "(call_declared f impl d = Some Absent) = (impl = None)"
  using assms by (cases impl) (simp_all add: call_declared_weak)

lemma weak_call_false:
  fixes i j :: "'d \<Rightarrow> bool"
  assumes "weak_imported f" "\<not> i d" "\<not> j d"
  shows "call_declared f (Some i) d = call_declared f (Some j) d"
  using assms by (simp add: call_declared_weak)

lemma weak_HDR:
  "f = CGSIsHDREnabled \<or> f = CGSIsHDRSupported \<Longrightarrow> weak_imported f"
  by (auto simp add: weak_imported_def decl_defs)

text \<open>
  Claim C9. The two HDR queries return \<^verbatim>\<open>bool\<close>, which is no status code, and have no
  parameter a result could be written through. A call of either has three outcomes for
  the caller: the symbol is absent, \<open>True\<close> or \<open>False\<close>. The symbol is reported absent
  exactly when the platform does not export it; and two implementations that both
  return \<open>False\<close> for a display, whatever their reasons, give the caller the same
  observation.
\<close>

theorem hdr_query_bare_boolean:
  "map fname (filter (\<lambda>f. ret f = TBool) (declared_functions DDCSupport_h)) =
     [''CGSIsHDREnabled'', ''CGSIsHDRSupported'']
   \<and> map signature (filter (\<lambda>f. ret f = TBool) (declared_functions DDCSupport_h)) =
     [(TBool, [TNamed ''CGDirectDisplayID'']), (TBool, [TNamed ''CGDirectDisplayID''])]
   \<and> map out_params (filter (\<lambda>f. ret f = TBool) (declared_functions DDCSupport_h)) = [[], []]
   \<and> \<not> status_code_type TBool
   \<and> (\<forall>f (impl :: ('d \<Rightarrow> bool) option) d.
         f = CGSIsHDREnabled \<or> f = CGSIsHDRSupported \<longrightarrow>
         call_declared f impl d \<in> {Some Absent, Some (Returned True), Some (Returned False)})
   \<and> (\<forall>f (impl :: ('d \<Rightarrow> bool) option) d.
         f = CGSIsHDREnabled \<or> f = CGSIsHDRSupported \<longrightarrow>
         (call_declared f impl d = Some Absent) = (impl = None))
   \<and> (\<forall>f (i :: 'd \<Rightarrow> bool) j d.
         f = CGSIsHDREnabled \<or> f = CGSIsHDRSupported \<longrightarrow> \<not> i d \<longrightarrow> \<not> j d \<longrightarrow>
         call_declared f (Some i) d = call_declared f (Some j) d)"
proof (intro conjI allI impI)
  show "map fname (filter (\<lambda>f. ret f = TBool) (declared_functions DDCSupport_h)) =
     [''CGSIsHDREnabled'', ''CGSIsHDRSupported'']"
    by (simp add: functions_DDCSupport_h decl_defs)
  show "map signature (filter (\<lambda>f. ret f = TBool) (declared_functions DDCSupport_h)) =
     [(TBool, [TNamed ''CGDirectDisplayID'']), (TBool, [TNamed ''CGDirectDisplayID''])]"
    by (simp add: functions_DDCSupport_h decl_defs signature_def)
  show "map out_params (filter (\<lambda>f. ret f = TBool) (declared_functions DDCSupport_h)) =
     [[], []]"
    by (simp add: functions_DDCSupport_h decl_defs out_params_def)
  show "\<not> status_code_type TBool"
    by (simp add: status_code_type_def)
next
  fix f and impl :: "('d \<Rightarrow> bool) option" and d
  assume "f = CGSIsHDREnabled \<or> f = CGSIsHDRSupported"
  then have w: "weak_imported f" by (rule weak_HDR)
  from w show "call_declared f impl d \<in>
      {Some Absent, Some (Returned True), Some (Returned False)}"
    by (rule weak_call_outcomes)
  from w show "(call_declared f impl d = Some Absent) = (impl = None)"
    by (rule weak_call_absent)
next
  fix f and i j :: "'d \<Rightarrow> bool" and d
  assume "f = CGSIsHDREnabled \<or> f = CGSIsHDRSupported" and "\<not> i d" and "\<not> j d"
  then show "call_declared f (Some i) d = call_declared f (Some j) d"
    by (intro weak_call_false weak_HDR)
qed

theorem hdr_query_bare_boolean_witness:
  "call_declared CGSIsHDREnabled (Some (\<lambda>d::nat. d = 7)) 0 =
     call_declared CGSIsHDREnabled (Some (\<lambda>d::nat. False)) 0
   \<and> call_declared CGSIsHDREnabled (Some (\<lambda>d::nat. False)) 0 \<in>
       {Some Absent, Some (Returned True), Some (Returned False)}
   \<and> call_declared CGSIsHDRSupported (None :: (nat \<Rightarrow> bool) option) 0 = Some Absent"
proof -
  note h = hdr_query_bare_boolean [where ?'d = nat, THEN conjunct2, THEN conjunct2, THEN conjunct2,
      THEN conjunct2]
  note outcomes = h [THEN conjunct1, rule_format]
  note absent = h [THEN conjunct2, THEN conjunct1, rule_format]
  note same = h [THEN conjunct2, THEN conjunct2, rule_format]
  have a: "call_declared CGSIsHDREnabled (Some (\<lambda>d::nat. d = 7)) 0 =
        call_declared CGSIsHDREnabled (Some (\<lambda>d::nat. False)) 0"
    by (rule same) simp_all
  have b: "call_declared CGSIsHDREnabled (Some (\<lambda>d::nat. False)) 0 \<in>
       {Some Absent, Some (Returned True), Some (Returned False)}"
    by (rule outcomes) simp
  have c: "call_declared CGSIsHDRSupported (None :: (nat \<Rightarrow> bool) option) (0::nat) =
       Some Absent"
    by (subst absent) simp_all
  from a b c show ?thesis by (intro conjI)
qed

text \<open>
  Claim C10. The two I2C transfers are the functions of the header that take a
  \<^verbatim>\<open>void*\<close>. In both the buffer is the fourth parameter, of type \<^verbatim>\<open>void*\<close> with no
  \<^verbatim>\<open>const\<close> (so that the callee may write through it, also for the input buffer of the
  write), directly followed by its size, a \<^verbatim>\<open>uint32_t\<close>; and neither declaration
  carries an attribute, so nothing declared relates the size to the buffer.
\<close>

theorem i2c_buffer_untyped_pointer_with_size:
  "map fname (untyped_buffer_functions DDCSupport_h) =
     [''IOAVServiceReadI2C'', ''IOAVServiceWriteI2C'']
   \<and> map (\<lambda>f. map (\<lambda>p. (pname p, ptype p)) (drop 3 (params f)))
         (untyped_buffer_functions DDCSupport_h) =
     [[(Some ''outputBuffer'', TPtr TVoid), (Some ''outputBufferSize'', TUInt32)],
      [(Some ''inputBuffer'', TPtr TVoid), (Some ''inputBufferSize'', TUInt32)]]
   \<and> map (\<lambda>f. map pname (out_params f)) (untyped_buffer_functions DDCSupport_h) =
     [[Some ''outputBuffer''], [Some ''inputBuffer'']]
   \<and> map attrs (untyped_buffer_functions DDCSupport_h) = [[], []]"
  by (simp add: untyped_buffer_functions_def functions_DDCSupport_h decl_defs iface_defs
      numeral_3_eq_3)

end
